theory Spec2Isabelle
  imports Main
begin

section \<open>The CRUD example: data model\<close>

text \<open>
  The Go struct \<^verbatim>\<open>User{ID int; Name string; Email string}\<close>. Go's \<^verbatim>\<open>int\<close> is taken
  as 64 bits wide; identifiers are mathematical integers here and the 64-bit range is checked
  where the source parses one (\<^verbatim>\<open>strconv.Atoi\<close>, the JSON decoder).
\<close>

record User =
  ID :: int
  Name :: string
  Email :: string

text \<open>The zero value of \<^verbatim>\<open>User\<close>, what \<^verbatim>\<open>var user User\<close> declares.\<close>

definition zero_User :: User where
  "zero_User = \<lparr>ID = 0, Name = [], Email = []\<rparr>"

text \<open>
  The errors a \<^verbatim>\<open>database/sql\<close> call hands back: \<^verbatim>\<open>sql.ErrNoRows\<close> from \<^verbatim>\<open>Row.Scan\<close>
  when the query produced no row, and any other failure of the backing store (unreachable,
  statement rejected, context cancelled) with its driver message.
\<close>

datatype db_error = ErrNoRows | StorageError string

text \<open>The four SQL statements of the repository, with their bound arguments.\<close>

datatype stmt =
  InsertUser string string
| SelectUser int
| UpdateUser int string string
| DeleteUser int

text \<open>
  Modelled from the spec: the \<^verbatim>\<open>users\<close> table, whose schema is not in the repository.
  The spec's data model says the identifier is assigned by the store on creation and is unique,
  so the table is a list of rows, the \<^verbatim>\<open>id\<close> column defaults to the next value of a sequence
  (\<open>next_id\<close>) and is a primary key: an insert whose identifier is already taken is rejected
  by the store, and the sequence still advances.

  \<open>fault\<close> is the condition of the backing store: \<open>Some msg\<close> when it is unreachable or
  rejects every statement with the driver message \<open>msg\<close>. \<open>executed\<close> is the list of the
  statements the repository has sent, oldest first; it is how a call of the store is observed.
\<close>

record db =
  rows :: "User list"
  next_id :: int
  fault :: "string option"
  executed :: "stmt list"

definition empty_db :: db where
  "empty_db = \<lparr>rows = [], next_id = 1, fault = None, executed = []\<rparr>"

definition send :: "stmt \<Rightarrow> db \<Rightarrow> db" where
  "send q d = d\<lparr>executed := executed d @ [q]\<rparr>"

definition has_id :: "int \<Rightarrow> User \<Rightarrow> bool" where
  "has_id i r = (ID r = i)"

text \<open>
  The invariant of a table fed by its sequence: identifiers are pairwise distinct, all below the
  next value of the sequence, and the sequence starts at 1 or above.
\<close>

definition wf_db :: "db \<Rightarrow> bool" where
  "wf_db d = (distinct (map ID (rows d)) \<and> list_all (\<lambda>r. ID r < next_id d) (rows d) \<and> 1 \<le> next_id d)"

section \<open>Store: \<^verbatim>\<open>UserRepository\<close>\<close>

text \<open>
  Every method returns what the Go method returns (the \<^verbatim>\<open>User\<close> and the \<^verbatim>\<open>error\<close>, \<open>None\<close>
  for \<^verbatim>\<open>nil\<close>) paired with the database afterwards. \<^verbatim>\<open>Row.Scan\<close> leaves its destinations
  untouched when it fails, so a failing method returns the \<^verbatim>\<open>user\<close> it holds at that point.
\<close>

text \<open>
  \<^verbatim>\<open>INSERT INTO users (name, email) VALUES ($1, $2) RETURNING id\<close>, scanned into
  \<^verbatim>\<open>user.ID\<close>.
\<close>

definition UserRepository_Create :: "db \<Rightarrow> User \<Rightarrow> (User \<times> db_error option) \<times> db" where
  "UserRepository_Create d user =
     (let d1 = send (InsertUser (Name user) (Email user)) d in
      case fault d of
        Some msg \<Rightarrow> ((user, Some (StorageError msg)), d1)
      | None \<Rightarrow>
          (let i = next_id d; d2 = d1\<lparr>next_id := i + 1\<rparr> in
           if list_ex (has_id i) (rows d)
           then ((user, Some (StorageError ''duplicate key value violates unique constraint'')), d2)
           else ((user\<lparr>ID := i\<rparr>, None),
                 d2\<lparr>rows := rows d @ [\<lparr>ID = i, Name = Name user, Email = Email user\<rparr>]\<rparr>)))"

text \<open>\<^verbatim>\<open>SELECT id, name, email FROM users WHERE id=$1\<close>, scanned into a fresh \<^verbatim>\<open>User\<close>.\<close>

definition UserRepository_Get :: "db \<Rightarrow> int \<Rightarrow> (User \<times> db_error option) \<times> db" where
  "UserRepository_Get d i =
     (let d1 = send (SelectUser i) d in
      case fault d of
        Some msg \<Rightarrow> ((zero_User, Some (StorageError msg)), d1)
      | None \<Rightarrow>
          (case find (has_id i) (rows d) of
             None \<Rightarrow> ((zero_User, Some ErrNoRows), d1)
           | Some r \<Rightarrow> ((r, None), d1)))"

text \<open>
  \<^verbatim>\<open>UPDATE users SET name=$1, email=$2 WHERE id=$3 RETURNING id, name, email\<close>: every row
  with that identifier gets the new name and email, and the first row returned is scanned into
  \<^verbatim>\<open>user\<close>.
\<close>

definition set_fields :: "int \<Rightarrow> User \<Rightarrow> User \<Rightarrow> User" where
  "set_fields i user r = (if has_id i r then r\<lparr>Name := Name user, Email := Email user\<rparr> else r)"

definition UserRepository_Update :: "db \<Rightarrow> int \<Rightarrow> User \<Rightarrow> (User \<times> db_error option) \<times> db" where
  "UserRepository_Update d i user =
     (let d1 = send (UpdateUser i (Name user) (Email user)) d in
      case fault d of
        Some msg \<Rightarrow> ((user, Some (StorageError msg)), d1)
      | None \<Rightarrow>
          (let rows' = map (set_fields i user) (rows d) in
           case find (has_id i) rows' of
             None \<Rightarrow> ((user, Some ErrNoRows), d1\<lparr>rows := rows'\<rparr>)
           | Some r \<Rightarrow> ((r, None), d1\<lparr>rows := rows'\<rparr>)))"

text \<open>
  \<^verbatim>\<open>DELETE FROM users WHERE id=$1\<close> through \<^verbatim>\<open>ExecContext\<close>: the \<^verbatim>\<open>sql.Result\<close> (with the
  number of rows affected) is discarded and only the error of the execution is returned. A
  \<^verbatim>\<open>DELETE\<close> that matches no row is a successful statement.
\<close>

definition UserRepository_Delete :: "db \<Rightarrow> int \<Rightarrow> db_error option \<times> db" where
  "UserRepository_Delete d i =
     (let d1 = send (DeleteUser i) d in
      case fault d of
        Some msg \<Rightarrow> (Some (StorageError msg), d1)
      | None \<Rightarrow> (None, d1\<lparr>rows := filter (\<lambda>r. \<not> has_id i r) (rows d)\<rparr>))"

section \<open>Service: \<^verbatim>\<open>UserService\<close>\<close>

definition UserService_CreateUser :: "db \<Rightarrow> string \<Rightarrow> string \<Rightarrow> (User \<times> db_error option) \<times> db" where
  "UserService_CreateUser d name email =
     UserRepository_Create d \<lparr>ID = 0, Name = name, Email = email\<rparr>"

definition UserService_GetUser :: "db \<Rightarrow> int \<Rightarrow> (User \<times> db_error option) \<times> db" where
  "UserService_GetUser d i = UserRepository_Get d i"

definition UserService_UpdateUser ::
  "db \<Rightarrow> int \<Rightarrow> string \<Rightarrow> string \<Rightarrow> (User \<times> db_error option) \<times> db" where
  "UserService_UpdateUser d i name email =
     UserRepository_Update d i \<lparr>ID = 0, Name = name, Email = email\<rparr>"

definition UserService_DeleteUser :: "db \<Rightarrow> int \<Rightarrow> db_error option \<times> db" where
  "UserService_DeleteUser d i = UserRepository_Delete d i"

section \<open>Transport: parsing the request\<close>

text \<open>
  \<^verbatim>\<open>strconv.Atoi\<close>: an optional sign, then one or more decimal digits, and the value must fit
  a 64-bit \<^verbatim>\<open>int\<close>; anything else is an error (\<open>None\<close>). The handlers only test the error.
\<close>

definition is_digit :: "char \<Rightarrow> bool" where
  "is_digit c = (48 \<le> (of_char c :: nat) \<and> (of_char c :: nat) \<le> 57)"

definition digit_val :: "char \<Rightarrow> nat" where
  "digit_val c = of_char c - 48"

fun parse_digits :: "string \<Rightarrow> nat \<Rightarrow> nat option" where
  "parse_digits [] n = Some n"
| "parse_digits (c # cs) n =
     (if is_digit c then parse_digits cs (n * 10 + digit_val c) else None)"

definition in_int64 :: "int \<Rightarrow> bool" where
  "in_int64 v = (- (2 ^ 63) \<le> v \<and> v < 2 ^ 63)"

definition signed_decimal :: "bool \<Rightarrow> string \<Rightarrow> int option" where
  "signed_decimal neg ds =
     (if ds = [] then None
      else case parse_digits ds 0 of
             None \<Rightarrow> None
           | Some n \<Rightarrow>
               (let v = (if neg then - int n else int n)
                in if in_int64 v then Some v else None))"

definition Atoi :: "string \<Rightarrow> int option" where
  "Atoi s =
     (case s of
        [] \<Rightarrow> None
      | c # cs \<Rightarrow>
          if c = CHR ''-'' then signed_decimal True cs
          else if c = CHR ''+'' then signed_decimal False cs
          else signed_decimal False s)"

text \<open>
  A JSON value as \<^verbatim>\<open>encoding/json\<close> scans it: a number keeps its literal text (a literal
  of the JSON grammar, so it never starts with a plus sign), an object keeps its members in
  order, duplicates included.
\<close>

datatype json =
  JNull
| JBool bool
| JNumber string
| JString string
| JArray "json list"
| JObject "(string \<times> json) list"

datatype json_error = SyntaxError | UnmarshalTypeError

text \<open>
  An inbound request, as far as the handlers read it: \<open>query_id\<close> is
  \<^verbatim>\<open>r.URL.Query().Get("id")\<close> (the empty string when the parameter is absent) and
  \<open>body\<close> is the first JSON value of \<^verbatim>\<open>r.Body\<close>, \<open>None\<close> when the body does not start
  with a well-formed JSON value.
\<close>

record request =
  query_id :: string
  body :: "json option"

text \<open>
  A member name selects a struct field when it equals the field's \<^verbatim>\<open>json\<close> tag up to the
  case of ASCII letters.
\<close>

definition fold_byte :: "char \<Rightarrow> nat" where
  "fold_byte c = (let n = of_char c in if 97 \<le> n \<and> n \<le> 122 then n - 32 else n)"

definition names_field :: "string \<Rightarrow> string \<Rightarrow> bool" where
  "names_field key tag = (map fold_byte key = map fold_byte tag)"

text \<open>
  Storing one JSON value into a field: \<^verbatim>\<open>null\<close> leaves the field as it is; an \<^verbatim>\<open>int\<close>
  field takes a number whose literal is a decimal integer in range, a \<^verbatim>\<open>string\<close> field takes
  a string; any other value is an \<^verbatim>\<open>UnmarshalTypeError\<close> and leaves the field as it is.
\<close>

fun store_ID :: "json \<Rightarrow> User \<Rightarrow> User \<times> json_error option" where
  "store_ID JNull u = (u, None)"
| "store_ID (JNumber lit) u =
     (case Atoi lit of None \<Rightarrow> (u, Some UnmarshalTypeError) | Some n \<Rightarrow> (u\<lparr>ID := n\<rparr>, None))"
| "store_ID v u = (u, Some UnmarshalTypeError)"

fun store_Name :: "json \<Rightarrow> User \<Rightarrow> User \<times> json_error option" where
  "store_Name JNull u = (u, None)"
| "store_Name (JString s) u = (u\<lparr>Name := s\<rparr>, None)"
| "store_Name v u = (u, Some UnmarshalTypeError)"

fun store_Email :: "json \<Rightarrow> User \<Rightarrow> User \<times> json_error option" where
  "store_Email JNull u = (u, None)"
| "store_Email (JString s) u = (u\<lparr>Email := s\<rparr>, None)"
| "store_Email v u = (u, Some UnmarshalTypeError)"

definition store_member :: "string \<Rightarrow> json \<Rightarrow> User \<Rightarrow> User \<times> json_error option" where
  "store_member key v u =
     (if names_field key ''id'' then store_ID v u
      else if names_field key ''name'' then store_Name v u
      else if names_field key ''email'' then store_Email v u
      else (u, None))"

text \<open>
  The members are stored in order; after a type error decoding goes on with the next member
  and the first error is the one reported.
\<close>

fun decode_members :: "(string \<times> json) list \<Rightarrow> User \<times> json_error option \<Rightarrow> User \<times> json_error option" where
  "decode_members [] acc = acc"
| "decode_members ((key, v) # ms) (u, e) =
     (case store_member key v u of
        (u', e') \<Rightarrow> decode_members ms (u', if e = None then e' else e))"

text \<open>
  \<^verbatim>\<open>json.NewDecoder(r.Body).Decode(&user)\<close> with \<^verbatim>\<open>user\<close> the zero value: the decoded
  struct and the error.
\<close>

fun Decode :: "json option \<Rightarrow> User \<times> json_error option" where
  "Decode None = (zero_User, Some SyntaxError)"
| "Decode (Some JNull) = (zero_User, None)"
| "Decode (Some (JObject ms)) = decode_members ms (zero_User, None)"
| "Decode (Some v) = (zero_User, Some UnmarshalTypeError)"

section \<open>Transport: \<^verbatim>\<open>UserHandler\<close>\<close>

text \<open>
  What the handler writes to the \<^verbatim>\<open>http.ResponseWriter\<close>: the status code and the body,
  either the text of \<^verbatim>\<open>http.Error\<close>, the JSON encoding of a \<^verbatim>\<open>User\<close>, or nothing.
\<close>

datatype content = Text string | Json User | NoContent

record response =
  status :: nat
  content :: content

definition StatusOK :: nat where "StatusOK = 200"
definition StatusCreated :: nat where "StatusCreated = 201"
definition StatusNoContent :: nat where "StatusNoContent = 204"
definition StatusBadRequest :: nat where "StatusBadRequest = 400"
definition StatusNotFound :: nat where "StatusNotFound = 404"
definition StatusInternalServerError :: nat where "StatusInternalServerError = 500"

definition http_Error :: "string \<Rightarrow> nat \<Rightarrow> response" where
  "http_Error msg code = \<lparr>status = code, content = Text msg\<rparr>"

definition UserHandler_CreateUser :: "db \<Rightarrow> request \<Rightarrow> response \<times> db" where
  "UserHandler_CreateUser d r =
     (case Decode (body r) of
        (user, Some err) \<Rightarrow> (http_Error ''Invalid input'' StatusBadRequest, d)
      | (user, None) \<Rightarrow>
          (case UserService_CreateUser d (Name user) (Email user) of
             ((createdUser, Some err), d') \<Rightarrow>
               (http_Error ''Failed to create user'' StatusInternalServerError, d')
           | ((createdUser, None), d') \<Rightarrow>
               (\<lparr>status = StatusCreated, content = Json createdUser\<rparr>, d')))"

definition UserHandler_GetUser :: "db \<Rightarrow> request \<Rightarrow> response \<times> db" where
  "UserHandler_GetUser d r =
     (case Atoi (query_id r) of
        None \<Rightarrow> (http_Error ''Invalid ID'' StatusBadRequest, d)
      | Some i \<Rightarrow>
          (case UserService_GetUser d i of
             ((user, Some err), d') \<Rightarrow> (http_Error ''User not found'' StatusNotFound, d')
           | ((user, None), d') \<Rightarrow> (\<lparr>status = StatusOK, content = Json user\<rparr>, d')))"

definition UserHandler_UpdateUser :: "db \<Rightarrow> request \<Rightarrow> response \<times> db" where
  "UserHandler_UpdateUser d r =
     (case Atoi (query_id r) of
        None \<Rightarrow> (http_Error ''Invalid ID'' StatusBadRequest, d)
      | Some i \<Rightarrow>
          (case Decode (body r) of
             (user, Some err) \<Rightarrow> (http_Error ''Invalid input'' StatusBadRequest, d)
           | (user, None) \<Rightarrow>
               (case UserService_UpdateUser d i (Name user) (Email user) of
                  ((updatedUser, Some err), d') \<Rightarrow>
                    (http_Error ''Failed to update user'' StatusNotFound, d')
                | ((updatedUser, None), d') \<Rightarrow>
                    (\<lparr>status = StatusOK, content = Json updatedUser\<rparr>, d'))))"

definition UserHandler_DeleteUser :: "db \<Rightarrow> request \<Rightarrow> response \<times> db" where
  "UserHandler_DeleteUser d r =
     (case Atoi (query_id r) of
        None \<Rightarrow> (http_Error ''Invalid ID'' StatusBadRequest, d)
      | Some i \<Rightarrow>
          (case UserService_DeleteUser d i of
             (Some err, d') \<Rightarrow> (http_Error ''Failed to delete user'' StatusNotFound, d')
           | (None, d') \<Rightarrow> (\<lparr>status = StatusNoContent, content = NoContent\<rparr>, d')))"

subsection \<open>Payloads that differ only in the \<^verbatim>\<open>id\<close> member\<close>

text \<open>
  Two payloads differ only in the \<^verbatim>\<open>id\<close> field when both are objects and, once the members
  that name the \<^verbatim>\<open>ID\<close> field are left out, the same members remain in the same order.
  \<open>fits_ID\<close> says that a value can be stored into the \<^verbatim>\<open>ID\<close> field: it is \<^verbatim>\<open>null\<close> or a
  decimal integer in range.
\<close>

definition strip_id :: "(string \<times> json) list \<Rightarrow> (string \<times> json) list" where
  "strip_id ms = filter (\<lambda>(key, v). \<not> names_field key ''id'') ms"

fun differ_only_in_id :: "json \<Rightarrow> json \<Rightarrow> bool" where
  "differ_only_in_id (JObject ms1) (JObject ms2) = (strip_id ms1 = strip_id ms2)"
| "differ_only_in_id v1 v2 = False"

fun fits_ID :: "json \<Rightarrow> bool" where
  "fits_ID JNull = True"
| "fits_ID (JNumber lit) = (Atoi lit \<noteq> None)"
| "fits_ID v = False"

fun id_members_fit :: "json \<Rightarrow> bool" where
  "id_members_fit (JObject ms) = list_all (\<lambda>(key, v). names_field key ''id'' \<longrightarrow> fits_ID v) ms"
| "id_members_fit v = False"

section \<open>Policy points\<close>

text \<open>
  \<^verbatim>\<open>fmt.Println\<close> writes its operands separated by spaces and ends the line. What a function
  prints to standard output is the string it returns here.
\<close>

fun spaced :: "string list \<Rightarrow> string" where
  "spaced [] = []"
| "spaced [x] = x"
| "spaced (x # y # ys) = x @ '' '' @ spaced (y # ys)"

definition Println :: "string list \<Rightarrow> string" where
  "Println xs = spaced xs @ [CHR 0x0A]"

subsection \<open>\<^verbatim>\<open>OCP/main.go\<close>: discounts\<close>

text \<open>
  An interface value is the record of its methods. The arithmetic of \<^verbatim>\<open>float64\<close> is not
  modelled: the type of prices is a parameter, and so are its multiplication (\<open>fmul\<close>) and the
  value of a literal (\<open>flit\<close>).
\<close>

record 'f float64_ops =
  fmul :: "'f \<Rightarrow> 'f \<Rightarrow> 'f"
  flit :: "string \<Rightarrow> 'f"

record 'f DiscountCalculator =
  Calculate :: "'f \<Rightarrow> 'f"

definition RegularCustomerDiscount :: "'f DiscountCalculator" where
  "RegularCustomerDiscount = \<lparr>Calculate = (\<lambda>price. price)\<rparr>"

definition LoyalCustomerDiscount :: "'f float64_ops \<Rightarrow> 'f DiscountCalculator" where
  "LoyalCustomerDiscount F = \<lparr>Calculate = (\<lambda>price. fmul F price (flit F ''0.90''))\<rparr>"

definition VIPCustomerDiscount :: "'f float64_ops \<Rightarrow> 'f DiscountCalculator" where
  "VIPCustomerDiscount F = \<lparr>Calculate = (\<lambda>price. fmul F price (flit F ''0.80''))\<rparr>"

definition NewCustomerDiscount :: "'f float64_ops \<Rightarrow> 'f DiscountCalculator" where
  "NewCustomerDiscount F = \<lparr>Calculate = (\<lambda>price. fmul F price (flit F ''0.95''))\<rparr>"

definition CalculateFinalPrice :: "'f \<Rightarrow> 'f DiscountCalculator \<Rightarrow> 'f" where
  "CalculateFinalPrice price discountCalculator = Calculate discountCalculator price"

subsection \<open>\<^verbatim>\<open>DIP/main.go\<close>: speakers\<close>

record Speaker =
  Speak :: string

definition Dog :: Speaker where "Dog = \<lparr>Speak = ''Woof!''\<rparr>"
definition Cat :: Speaker where "Cat = \<lparr>Speak = ''Meow!''\<rparr>"
definition Parrot :: Speaker where "Parrot = \<lparr>Speak = ''Squawk!''\<rparr>"

definition DescribeAnimal :: "Speaker \<Rightarrow> string" where
  "DescribeAnimal speaker = Println [''The animal says:'', Speak speaker]"

subsection \<open>\<^verbatim>\<open>DIP/main.go\<close>: notifiers\<close>

text \<open>
  \<^verbatim>\<open>Send\<close> returns what it printed and its \<^verbatim>\<open>error\<close>: \<open>None\<close> for \<^verbatim>\<open>nil\<close>, otherwise the
  text of the error.
\<close>

record Notifier =
  Send :: "string \<Rightarrow> string \<times> string option"

definition EmailNotifier :: Notifier where
  "EmailNotifier = \<lparr>Send = (\<lambda>message. (Println [''Sending email with message:'', message], None))\<rparr>"

definition SMSNotifier :: Notifier where
  "SMSNotifier = \<lparr>Send = (\<lambda>message. (Println [''Sending SMS with message:'', message], None))\<rparr>"

record NotificationService =
  notifier :: Notifier

definition NewNotificationService :: "Notifier \<Rightarrow> NotificationService" where
  "NewNotificationService n = \<lparr>notifier = n\<rparr>"

text \<open>
  \<^verbatim>\<open>Notify\<close> returns everything printed, and whether it took the branch \<^verbatim>\<open>err != nil\<close>.
\<close>

definition Notify :: "NotificationService \<Rightarrow> string \<Rightarrow> string \<times> bool" where
  "Notify n message =
     (case Send (notifier n) message of
        (out, Some err) \<Rightarrow> (out @ Println [''Failed to send notification:'', err], True)
      | (out, None) \<Rightarrow> (out @ Println [''Notification sent successfully!''], False))"

section \<open>Example states\<close>

text \<open>A healthy store holding two users, and a store that cannot be reached.\<close>

definition two_users :: db where
  "two_users = \<lparr>rows = [\<lparr>ID = 1, Name = ''A'', Email = ''a@x''\<rparr>, \<lparr>ID = 2, Name = ''C'', Email = ''c@x''\<rparr>],
     next_id = 3, fault = None, executed = []\<rparr>"


text \<open>
  The end-to-end scenario of the spec: create \<^verbatim>\<open>{name: "A", email: "a@x"}\<close> on the empty
  store, update identifier 1 to \<^verbatim>\<open>{name: "B", email: "b@x"}\<close>, delete identifier 1.
\<close>

definition db_created :: db where
  "db_created = snd (UserService_CreateUser empty_db ''A'' ''a@x'')"

definition db_updated :: db where
  "db_updated = snd (UserService_UpdateUser db_created 1 ''B'' ''b@x'')"

definition db_deleted :: db where
  "db_deleted = snd (UserService_DeleteUser db_updated 1)"

text \<open>
  Requests: one with an identifier that does not parse and a body that is not JSON, and, for a
  query identifier and the value of the payload's \<^verbatim>\<open>id\<close> member, one whose payload carries
  the name \<^verbatim>\<open>B\<close> and the email \<^verbatim>\<open>b@x\<close>.
\<close>

definition bad_request :: request where
  "bad_request = \<lparr>query_id = ''abc'', body = None\<rparr>"

definition payload_B :: "json \<Rightarrow> json" where
  "payload_B idv = JObject [(''id'', idv), (''name'', JString ''B''), (''email'', JString ''b@x'')]"

definition request_B :: "string \<Rightarrow> json \<Rightarrow> request" where
  "request_B q idv = \<lparr>query_id = q, body = Some (payload_B idv)\<rparr>"


section \<open>Properties of the store\<close>



lemma find_has_id_None: "find (has_id i) rs = None \<longleftrightarrow> \<not> list_ex (has_id i) rs"
  by (induction rs) auto

lemma find_has_id_Some: "find (has_id i) rs = Some r \<Longrightarrow> ID r = i \<and> r \<in> set rs"
  by (induction rs) (auto simp: has_id_def split: if_splits)

lemma find_has_id_append_fresh:
  "\<not> list_ex (has_id i) rs \<Longrightarrow> has_id i r \<Longrightarrow> find (has_id i) (rs @ [r]) = Some r"
  by (induction rs) auto

lemma ID_set_fields: "ID (set_fields i user r) = ID r"
  by (simp add: set_fields_def)

lemma has_id_set_fields: "has_id j (set_fields i user r) = has_id j r"
  by (simp add: has_id_def ID_set_fields)

lemma find_has_id_map_set_fields:
  "find (has_id j) (map (set_fields i user) rs) = map_option (set_fields i user) (find (has_id j) rs)"
  by (induction rs) (simp_all add: has_id_set_fields)

lemma set_fields_hit:
  "has_id i r \<Longrightarrow> set_fields i user r = \<lparr>ID = i, Name = Name user, Email = Email user\<rparr>"
  by (cases r) (simp add: set_fields_def has_id_def)

lemma map_set_fields_idem:
  "map (set_fields i user) (map (set_fields i user) rs) = map (set_fields i user) rs"
  by (induction rs) (simp_all add: set_fields_def has_id_def)

lemma filter_others_set_fields:
  "filter (\<lambda>r. \<not> has_id i r) (map (set_fields i user) rs) = filter (\<lambda>r. \<not> has_id i r) rs"
  by (induction rs) (simp_all add: set_fields_def has_id_def)

lemma list_ex_has_id_filter: "\<not> list_ex (has_id i) (filter (\<lambda>r. \<not> has_id i r) rs)"
  by (induction rs) simp_all

subsection \<open>Identifiers that are not in the table\<close>

text \<open>
  \<^verbatim>\<open>Get\<close> and \<open>Update\<close> on an identifier that no row carries fail with
  \<^verbatim>\<open>sql.ErrNoRows\<close>; \<^verbatim>\<open>Delete\<close> on a healthy store never fails, whatever the identifier.
\<close>

lemma UserRepository_Get_missing:
  "fault d = None \<Longrightarrow> \<not> list_ex (has_id i) (rows d) \<Longrightarrow>
   fst (UserRepository_Get d i) = (zero_User, Some ErrNoRows)"
  by (simp add: UserRepository_Get_def Let_def find_has_id_None [symmetric])

lemma UserRepository_Update_missing:
  "fault d = None \<Longrightarrow> \<not> list_ex (has_id i) (rows d) \<Longrightarrow>
   fst (UserRepository_Update d i user) = (user, Some ErrNoRows) \<and>
   rows (snd (UserRepository_Update d i user)) = rows d"
proof -
  assume h: "fault d = None" and m: "\<not> list_ex (has_id i) (rows d)"
  from m have same: "map (set_fields i user) (rows d) = rows d"
    by (induction "rows d") (auto simp: set_fields_def list_ex_iff intro: map_idI)
  from m have "find (has_id i) (rows d) = None" by (simp add: find_has_id_None)
  with h same show ?thesis
    by (simp add: UserRepository_Update_def Let_def send_def)
qed

lemma UserRepository_Delete_healthy:
  "fault d = None \<Longrightarrow> fst (UserRepository_Delete d i) = None"
  by (simp add: UserRepository_Delete_def Let_def)

lemma UserRepository_Delete_removes:
  "fault d = None \<Longrightarrow> \<not> list_ex (has_id i) (rows (snd (UserRepository_Delete d i)))"
  by (simp add: UserRepository_Delete_def Let_def send_def list_ex_has_id_filter)

text \<open>
  Claim C1 says that get, update and delete of an identifier that was never created or was
  already deleted all fail with NotFound, and that a second delete of the same identifier fails
  with NotFound. \<^verbatim>\<open>UserRepository.Delete\<close> does not: on the empty store deleting identifier 1
  returns \<^verbatim>\<open>nil\<close>, and after creating a user (identifier 1) and deleting it, the second
  delete returns \<^verbatim>\<open>nil\<close> again.
\<close>

theorem UserRepository_Delete_missing_id_returns_nil:
  "fst (UserRepository_Delete empty_db 1) = None \<and>
   list_ex (has_id 1) (rows db_created) \<and>
   fst (UserRepository_Delete db_created 1) = None \<and>
   \<not> list_ex (has_id 1) (rows (snd (UserRepository_Delete db_created 1))) \<and>
   fst (UserRepository_Delete (snd (UserRepository_Delete db_created 1)) 1) = None"
  by (simp add: db_created_def UserService_CreateUser_def UserRepository_Delete_def
      UserRepository_Create_def empty_db_def send_def has_id_def Let_def)

subsection \<open>Create, then get\<close>

text \<open>
  Claim C3: whenever \<^verbatim>\<open>Create\<close> returns a record without error, the record carries the
  identifier the store assigned (the next value of the sequence) with the name and email that
  were passed in, a row with that identifier is in the table, and a subsequent \<^verbatim>\<open>Get\<close> with
  that identifier returns an equal record without error. On a healthy store that satisfies the
  invariant of the table, \<^verbatim>\<open>Create\<close> does return without error, and the identifier is at
  least 1, so it is not the zero value of a record that is not yet persisted.
\<close>

theorem create_then_get:
  "(UserRepository_Create d user = ((u', None), d') \<longrightarrow>
      ID u' = next_id d \<and> Name u' = Name user \<and> Email u' = Email user \<and>
      list_ex (has_id (ID u')) (rows d') \<and>
      fst (UserRepository_Get d' (ID u')) = (u', None)) \<and>
   (fault d = None \<and> wf_db d \<longrightarrow>
      snd (fst (UserRepository_Create d user)) = None \<and>
      1 \<le> ID (fst (fst (UserRepository_Create d user))))"
proof (intro conjI impI)
  assume c: "UserRepository_Create d user = ((u', None), d')"
  then have h: "fault d = None" and fresh: "\<not> list_ex (has_id (next_id d)) (rows d)"
    by (auto simp: UserRepository_Create_def Let_def split: option.splits if_splits)
  from c h fresh have u': "u' = user\<lparr>ID := next_id d\<rparr>"
    and d': "d' = (send (InsertUser (Name user) (Email user)) d)
                    \<lparr>next_id := next_id d + 1,
                     rows := rows d @ [\<lparr>ID = next_id d, Name = Name user, Email = Email user\<rparr>]\<rparr>"
    by (simp_all add: UserRepository_Create_def Let_def)
  show "ID u' = next_id d" "Name u' = Name user" "Email u' = Email user"
    by (simp_all add: u')
  show "list_ex (has_id (ID u')) (rows d')"
    by (simp add: u' d' send_def has_id_def)
  have "find (has_id (next_id d)) (rows d @ [\<lparr>ID = next_id d, Name = Name user, Email = Email user\<rparr>])
        = Some \<lparr>ID = next_id d, Name = Name user, Email = Email user\<rparr>"
    using fresh by (rule find_has_id_append_fresh) (simp add: has_id_def)
  with h show "fst (UserRepository_Get d' (ID u')) = (u', None)"
    by (simp add: UserRepository_Get_def Let_def u' d' send_def)
next
  assume a: "fault d = None \<and> wf_db d"
  then have "\<not> list_ex (has_id (next_id d)) (rows d)"
    by (auto simp: wf_db_def list_ex_iff list_all_iff has_id_def)
  with a show "snd (fst (UserRepository_Create d user)) = None"
    and "1 \<le> ID (fst (fst (UserRepository_Create d user)))"
    by (simp_all add: UserRepository_Create_def Let_def wf_db_def)
qed

theorem create_then_get_witness:
  "UserRepository_Create empty_db \<lparr>ID = 0, Name = ''A'', Email = ''a@x''\<rparr> =
     ((\<lparr>ID = 1, Name = ''A'', Email = ''a@x''\<rparr>, None),
      \<lparr>rows = [\<lparr>ID = 1, Name = ''A'', Email = ''a@x''\<rparr>], next_id = 2, fault = None,
       executed = [InsertUser ''A'' ''a@x'']\<rparr>) \<and>
   fault empty_db = None \<and> wf_db empty_db \<and>
   fst (UserRepository_Get
          \<lparr>rows = [\<lparr>ID = 1, Name = ''A'', Email = ''a@x''\<rparr>], next_id = 2, fault = None,
           executed = [InsertUser ''A'' ''a@x'']\<rparr> 1) =
     (\<lparr>ID = 1, Name = ''A'', Email = ''a@x''\<rparr>, None)"
proof -
  have c: "UserRepository_Create empty_db \<lparr>ID = 0, Name = ''A'', Email = ''a@x''\<rparr> =
     ((\<lparr>ID = 1, Name = ''A'', Email = ''a@x''\<rparr>, None),
      \<lparr>rows = [\<lparr>ID = 1, Name = ''A'', Email = ''a@x''\<rparr>], next_id = 2, fault = None,
       executed = [InsertUser ''A'' ''a@x'']\<rparr>)"
    by (simp add: UserRepository_Create_def empty_db_def send_def Let_def)
  have w: "fault empty_db = None \<and> wf_db empty_db"
    by (simp add: empty_db_def wf_db_def)
  from create_then_get [of empty_db "\<lparr>ID = 0, Name = ''A'', Email = ''a@x''\<rparr>"
      "\<lparr>ID = 1, Name = ''A'', Email = ''a@x''\<rparr>"
      "\<lparr>rows = [\<lparr>ID = 1, Name = ''A'', Email = ''a@x''\<rparr>], next_id = 2, fault = None,
       executed = [InsertUser ''A'' ''a@x'']\<rparr>"] c w
  show ?thesis by simp
qed


subsection \<open>The invariant of the table\<close>

text \<open>The empty store satisfies the invariant and every method of the repository keeps it.\<close>

lemma wf_db_empty: "wf_db empty_db"
  by (simp add: wf_db_def empty_db_def)

lemma wf_db_Create: "wf_db d \<Longrightarrow> wf_db (snd (UserRepository_Create d user))"
  by (auto simp: wf_db_def UserRepository_Create_def Let_def send_def list_all_iff
      split: option.splits)

lemma wf_db_Get: "wf_db d \<Longrightarrow> wf_db (snd (UserRepository_Get d i))"
  by (auto simp: wf_db_def UserRepository_Get_def Let_def send_def split: option.splits)

lemma map_ID_set_fields: "map ID (map (set_fields i user) rs) = map ID rs"
  by (induction rs) (simp_all add: ID_set_fields)

subsection \<open>Update\<close>

lemma list_all_set_fields:
  "list_all (\<lambda>r. has_id i r \<longrightarrow> Name r = Name user \<and> Email r = Email user)
     (map (set_fields i user) rs)"
  by (induction rs) (simp_all add: set_fields_def has_id_def)

lemma rows_Update:
  "fault d = None \<Longrightarrow> rows (snd (UserRepository_Update d i user)) = map (set_fields i user) (rows d)"
  by (simp add: UserRepository_Update_def Let_def send_def split: option.splits)

lemma wf_db_Update: "wf_db d \<Longrightarrow> wf_db (snd (UserRepository_Update d i user))"
  by (auto simp: wf_db_def UserRepository_Update_def Let_def send_def list_all_iff
      map_ID_set_fields [simplified] ID_set_fields comp_def split: option.splits)

lemma wf_db_Delete: "wf_db d \<Longrightarrow> wf_db (snd (UserRepository_Delete d i))"
  by (auto simp: wf_db_def UserRepository_Delete_def Let_def send_def list_all_iff
      distinct_map_filter split: option.splits)

text \<open>
  Claim C4: on a healthy store, updating an identifier that a row carries returns the record
  with that identifier and exactly the supplied name and email, a subsequent \<^verbatim>\<open>Get\<close>
  returns that same record, the identifiers in the table are unchanged, every row with that
  identifier has the supplied name and email (none keeps a prior value), and the rows with other
  identifiers are untouched.
\<close>

theorem update_replaces_fields:
  "fault d = None \<and> list_ex (has_id i) (rows d) \<longrightarrow>
     fst (UserRepository_Update d i user) = (\<lparr>ID = i, Name = Name user, Email = Email user\<rparr>, None) \<and>
     fst (UserRepository_Get (snd (UserRepository_Update d i user)) i) =
       (\<lparr>ID = i, Name = Name user, Email = Email user\<rparr>, None) \<and>
     map ID (rows (snd (UserRepository_Update d i user))) = map ID (rows d) \<and>
     list_all (\<lambda>r. has_id i r \<longrightarrow> Name r = Name user \<and> Email r = Email user)
       (rows (snd (UserRepository_Update d i user))) \<and>
     filter (\<lambda>r. \<not> has_id i r) (rows (snd (UserRepository_Update d i user))) =
       filter (\<lambda>r. \<not> has_id i r) (rows d)"
proof (intro impI, elim conjE)
  assume h: "fault d = None" and ex: "list_ex (has_id i) (rows d)"
  let ?new = "\<lparr>ID = i, Name = Name user, Email = Email user\<rparr>"
  from ex obtain r where r: "find (has_id i) (rows d) = Some r"
    by (cases "find (has_id i) (rows d)") (simp_all add: find_has_id_None)
  then have "has_id i r" by (simp add: has_id_def find_has_id_Some)
  then have hit: "set_fields i user r = ?new" by (rule set_fields_hit)
  from r hit have f: "find (has_id i) (map (set_fields i user) (rows d)) = Some ?new"
    by (simp add: find_has_id_map_set_fields)
  from h f have upd: "fst (UserRepository_Update d i user) = (?new, None)"
    by (simp add: UserRepository_Update_def Let_def)
  have rows': "rows (snd (UserRepository_Update d i user)) = map (set_fields i user) (rows d)"
    using h by (rule rows_Update)
  have fault': "fault (snd (UserRepository_Update d i user)) = None"
    using h f by (simp add: UserRepository_Update_def Let_def send_def)
  have get: "fst (UserRepository_Get (snd (UserRepository_Update d i user)) i) = (?new, None)"
    using fault' f by (simp add: UserRepository_Get_def Let_def rows')
  have ids: "map ID (rows (snd (UserRepository_Update d i user))) = map ID (rows d)"
    by (simp only: rows' map_ID_set_fields)
  have all: "list_all (\<lambda>r. has_id i r \<longrightarrow> Name r = Name user \<and> Email r = Email user)
       (rows (snd (UserRepository_Update d i user)))"
    by (simp only: rows' list_all_set_fields)
  have others: "filter (\<lambda>r. \<not> has_id i r) (rows (snd (UserRepository_Update d i user))) =
       filter (\<lambda>r. \<not> has_id i r) (rows d)"
    by (simp only: rows' filter_others_set_fields)
  from upd get ids all others
  show "fst (UserRepository_Update d i user) = (?new, None) \<and>
     fst (UserRepository_Get (snd (UserRepository_Update d i user)) i) = (?new, None) \<and>
     map ID (rows (snd (UserRepository_Update d i user))) = map ID (rows d) \<and>
     list_all (\<lambda>r. has_id i r \<longrightarrow> Name r = Name user \<and> Email r = Email user)
       (rows (snd (UserRepository_Update d i user))) \<and>
     filter (\<lambda>r. \<not> has_id i r) (rows (snd (UserRepository_Update d i user))) =
       filter (\<lambda>r. \<not> has_id i r) (rows d)"
    by (intro conjI)
qed

theorem update_replaces_fields_witness:
  "fault two_users = None \<and> list_ex (has_id 1) (rows two_users) \<and>
   fst (UserRepository_Update two_users 1 \<lparr>ID = 0, Name = ''B'', Email = ''b@x''\<rparr>) =
     (\<lparr>ID = 1, Name = ''B'', Email = ''b@x''\<rparr>, None) \<and>
   fst (UserRepository_Get (snd (UserRepository_Update two_users 1 \<lparr>ID = 0, Name = ''B'', Email = ''b@x''\<rparr>)) 1) =
     (\<lparr>ID = 1, Name = ''B'', Email = ''b@x''\<rparr>, None) \<and>
   rows (snd (UserRepository_Update two_users 1 \<lparr>ID = 0, Name = ''B'', Email = ''b@x''\<rparr>)) =
     [\<lparr>ID = 1, Name = ''B'', Email = ''b@x''\<rparr>, \<lparr>ID = 2, Name = ''C'', Email = ''c@x''\<rparr>]"
proof -
  have h: "fault two_users = None \<and> list_ex (has_id 1) (rows two_users)"
    by (simp add: two_users_def has_id_def)
  have r: "rows (snd (UserRepository_Update two_users 1 \<lparr>ID = 0, Name = ''B'', Email = ''b@x''\<rparr>)) =
     [\<lparr>ID = 1, Name = ''B'', Email = ''b@x''\<rparr>, \<lparr>ID = 2, Name = ''C'', Email = ''c@x''\<rparr>]"
    by (simp add: UserRepository_Update_def two_users_def Let_def send_def set_fields_def has_id_def)
  from update_replaces_fields [of two_users 1 "\<lparr>ID = 0, Name = ''B'', Email = ''b@x''\<rparr>"] h r
  show ?thesis by simp
qed

section \<open>Properties of the service\<close>

text \<open>
  Claim C5: every method of \<^verbatim>\<open>UserService\<close> builds a \<^verbatim>\<open>User\<close> from its primitive
  arguments (for create and update), hands it to the corresponding method of the repository and
  returns the repository's record, error and store unchanged.
\<close>

theorem UserService_delegates:
  "UserService_CreateUser d name email =
     UserRepository_Create d \<lparr>ID = 0, Name = name, Email = email\<rparr> \<and>
   UserService_GetUser d i = UserRepository_Get d i \<and>
   UserService_UpdateUser d i name email =
     UserRepository_Update d i \<lparr>ID = 0, Name = name, Email = email\<rparr> \<and>
   UserService_DeleteUser d i = UserRepository_Delete d i"
  by (simp add: UserService_CreateUser_def UserService_GetUser_def UserService_UpdateUser_def
      UserService_DeleteUser_def)

text \<open>
  Every call of the service sends exactly one statement, also when the store fails: a store
  that comes back with the same list of statements was not called.
\<close>

lemma service_calls_are_logged:
  "executed (snd (UserService_CreateUser d name email)) = executed d @ [InsertUser name email] \<and>
   executed (snd (UserService_GetUser d i)) = executed d @ [SelectUser i] \<and>
   executed (snd (UserService_UpdateUser d i name email)) = executed d @ [UpdateUser i name email] \<and>
   executed (snd (UserService_DeleteUser d i)) = executed d @ [DeleteUser i]"
  by (simp add: UserService_CreateUser_def UserService_GetUser_def UserService_UpdateUser_def
      UserService_DeleteUser_def UserRepository_Create_def UserRepository_Get_def
      UserRepository_Update_def UserRepository_Delete_def send_def Let_def
      split: option.splits)

section \<open>The end-to-end scenario\<close>

lemmas http_status_defs =
  StatusOK_def StatusCreated_def StatusNoContent_def StatusBadRequest_def StatusNotFound_def
  StatusInternalServerError_def

lemmas parse_defs =
  Atoi_def signed_decimal_def is_digit_def digit_val_def in_int64_def

lemmas decode_defs =
  store_member_def names_field_def fold_byte_def zero_User_def

lemmas store_defs =
  UserRepository_Create_def UserRepository_Get_def UserRepository_Update_def
  UserRepository_Delete_def send_def has_id_def set_fields_def Let_def

lemmas service_defs =
  UserService_CreateUser_def UserService_GetUser_def UserService_UpdateUser_def
  UserService_DeleteUser_def

text \<open>
  The end-to-end scenario of the spec, run on the code: the created record gets identifier 1,
  get and update return what the spec lists, delete succeeds and the last get fails with
  \<^verbatim>\<open>sql.ErrNoRows\<close>.
\<close>

lemma end_to_end:
  "fst (UserService_CreateUser empty_db ''A'' ''a@x'') = (\<lparr>ID = 1, Name = ''A'', Email = ''a@x''\<rparr>, None) \<and>
   fst (UserService_GetUser db_created 1) = (\<lparr>ID = 1, Name = ''A'', Email = ''a@x''\<rparr>, None) \<and>
   fst (UserService_UpdateUser db_created 1 ''B'' ''b@x'') = (\<lparr>ID = 1, Name = ''B'', Email = ''b@x''\<rparr>, None) \<and>
   fst (UserService_DeleteUser db_updated 1) = None \<and>
   fst (UserService_GetUser db_deleted 1) = (zero_User, Some ErrNoRows)"
  by (simp add: db_deleted_def db_updated_def db_created_def service_defs store_defs empty_db_def)

section \<open>Properties of the handlers\<close>

subsection \<open>Bad requests and success signals\<close>

text \<open>
  Claim C6: a request whose payload the decoder rejects makes the create and update handlers
  answer with status 400 and the text \<^verbatim>\<open>Invalid input\<close>, the store exactly as it was, so that
  no statement was sent and the service was not invoked (\<open>service_calls_are_logged\<close>); update
  answers \<^verbatim>\<open>Invalid ID\<close> instead when the identifier does not parse either, still with status
  400. A request whose \<^verbatim>\<open>id\<close> parameter does not parse as an \<^verbatim>\<open>int\<close> makes the get, update
  and delete handlers answer with status 400 and the text \<^verbatim>\<open>Invalid ID\<close>, the store exactly as
  it was. When the input parses and the service returns no error, create answers 201 with the
  created record, get and update answer 200 with the record, and delete answers 204 with no
  content.
\<close>

theorem handler_bad_request_and_success:
  "(snd (Decode (body r)) \<noteq> None \<longrightarrow>
      UserHandler_CreateUser d r = (\<lparr>status = 400, content = Text ''Invalid input''\<rparr>, d) \<and>
      UserHandler_UpdateUser d r =
        (\<lparr>status = 400,
          content = Text (if Atoi (query_id r) = None then ''Invalid ID'' else ''Invalid input'')\<rparr>,
         d)) \<and>
   (Atoi (query_id r) = None \<longrightarrow>
      UserHandler_GetUser d r = (\<lparr>status = 400, content = Text ''Invalid ID''\<rparr>, d) \<and>
      UserHandler_UpdateUser d r = (\<lparr>status = 400, content = Text ''Invalid ID''\<rparr>, d) \<and>
      UserHandler_DeleteUser d r = (\<lparr>status = 400, content = Text ''Invalid ID''\<rparr>, d)) \<and>
   (Decode (body r) = (user, None) \<and>
    UserService_CreateUser d (Name user) (Email user) = ((u', None), d') \<longrightarrow>
      UserHandler_CreateUser d r = (\<lparr>status = 201, content = Json u'\<rparr>, d')) \<and>
   (Atoi (query_id r) = Some i \<and> UserService_GetUser d i = ((u', None), d') \<longrightarrow>
      UserHandler_GetUser d r = (\<lparr>status = 200, content = Json u'\<rparr>, d')) \<and>
   (Atoi (query_id r) = Some i \<and> Decode (body r) = (user, None) \<and>
    UserService_UpdateUser d i (Name user) (Email user) = ((u', None), d') \<longrightarrow>
      UserHandler_UpdateUser d r = (\<lparr>status = 200, content = Json u'\<rparr>, d')) \<and>
   (Atoi (query_id r) = Some i \<and> UserService_DeleteUser d i = (None, d') \<longrightarrow>
      UserHandler_DeleteUser d r = (\<lparr>status = 204, content = NoContent\<rparr>, d'))"
proof (intro conjI impI)
  assume "snd (Decode (body r)) \<noteq> None"
  then obtain u e where dec: "Decode (body r) = (u, Some e)"
    by (cases "Decode (body r)") auto
  then show "UserHandler_CreateUser d r = (\<lparr>status = 400, content = Text ''Invalid input''\<rparr>, d)"
    by (simp add: UserHandler_CreateUser_def http_Error_def StatusBadRequest_def)
  from dec show "UserHandler_UpdateUser d r =
        (\<lparr>status = 400,
          content = Text (if Atoi (query_id r) = None then ''Invalid ID'' else ''Invalid input'')\<rparr>,
         d)"
    by (cases "Atoi (query_id r)")
      (simp_all add: UserHandler_UpdateUser_def http_Error_def StatusBadRequest_def)
next
  assume a: "Atoi (query_id r) = None"
  then show "UserHandler_GetUser d r = (\<lparr>status = 400, content = Text ''Invalid ID''\<rparr>, d)"
    by (simp add: UserHandler_GetUser_def http_Error_def StatusBadRequest_def)
  from a show "UserHandler_UpdateUser d r = (\<lparr>status = 400, content = Text ''Invalid ID''\<rparr>, d)"
    by (simp add: UserHandler_UpdateUser_def http_Error_def StatusBadRequest_def)
  from a show "UserHandler_DeleteUser d r = (\<lparr>status = 400, content = Text ''Invalid ID''\<rparr>, d)"
    by (simp add: UserHandler_DeleteUser_def http_Error_def StatusBadRequest_def)
next
  assume "Decode (body r) = (user, None) \<and>
    UserService_CreateUser d (Name user) (Email user) = ((u', None), d')"
  then show "UserHandler_CreateUser d r = (\<lparr>status = 201, content = Json u'\<rparr>, d')"
    by (simp add: UserHandler_CreateUser_def StatusCreated_def)
next
  assume "Atoi (query_id r) = Some i \<and> UserService_GetUser d i = ((u', None), d')"
  then show "UserHandler_GetUser d r = (\<lparr>status = 200, content = Json u'\<rparr>, d')"
    by (simp add: UserHandler_GetUser_def StatusOK_def)
next
  assume "Atoi (query_id r) = Some i \<and> Decode (body r) = (user, None) \<and>
    UserService_UpdateUser d i (Name user) (Email user) = ((u', None), d')"
  then show "UserHandler_UpdateUser d r = (\<lparr>status = 200, content = Json u'\<rparr>, d')"
    by (simp add: UserHandler_UpdateUser_def StatusOK_def)
next
  assume "Atoi (query_id r) = Some i \<and> UserService_DeleteUser d i = (None, d')"
  then show "UserHandler_DeleteUser d r = (\<lparr>status = 204, content = NoContent\<rparr>, d')"
    by (simp add: UserHandler_DeleteUser_def StatusNoContent_def)
qed

subsection \<open>Failures of the service and of the store\<close>





subsection \<open>The example requests\<close>

lemma Decode_bad_request: "Decode (body bad_request) = (zero_User, Some SyntaxError)"
  by (simp add: bad_request_def)

lemma Atoi_bad_request: "Atoi (query_id bad_request) = None"
  by (simp add: bad_request_def parse_defs)

lemma Decode_request_B_number:
  "Decode (body (request_B q (JNumber ''7''))) = (\<lparr>ID = 7, Name = ''B'', Email = ''b@x''\<rparr>, None)"
  by (simp add: request_B_def payload_B_def decode_defs parse_defs)

lemma Decode_request_B_string:
  "Decode (body (request_B q (JString ''7''))) =
     (\<lparr>ID = 0, Name = ''B'', Email = ''b@x''\<rparr>, Some UnmarshalTypeError)"
  by (simp add: request_B_def payload_B_def decode_defs parse_defs)

lemma Atoi_1: "Atoi ''1'' = Some 1"
  by (simp add: parse_defs)


lemma query_id_request_B: "query_id (request_B q idv) = q"
  by (simp add: request_B_def)

lemma two_users_Create_B:
  "UserService_CreateUser two_users ''B'' ''b@x'' =
     ((\<lparr>ID = 3, Name = ''B'', Email = ''b@x''\<rparr>, None),
      \<lparr>rows = [\<lparr>ID = 1, Name = ''A'', Email = ''a@x''\<rparr>, \<lparr>ID = 2, Name = ''C'', Email = ''c@x''\<rparr>,
               \<lparr>ID = 3, Name = ''B'', Email = ''b@x''\<rparr>],
       next_id = 4, fault = None, executed = [InsertUser ''B'' ''b@x'']\<rparr>)"
  by (simp add: service_defs store_defs two_users_def)

lemma two_users_Get_1:
  "UserService_GetUser two_users 1 =
     ((\<lparr>ID = 1, Name = ''A'', Email = ''a@x''\<rparr>, None), two_users\<lparr>executed := [SelectUser 1]\<rparr>)"
  by (simp add: service_defs store_defs two_users_def)

lemma two_users_Update_1_B:
  "UserService_UpdateUser two_users 1 ''B'' ''b@x'' =
     ((\<lparr>ID = 1, Name = ''B'', Email = ''b@x''\<rparr>, None),
      \<lparr>rows = [\<lparr>ID = 1, Name = ''B'', Email = ''b@x''\<rparr>, \<lparr>ID = 2, Name = ''C'', Email = ''c@x''\<rparr>],
       next_id = 3, fault = None, executed = [UpdateUser 1 ''B'' ''b@x'']\<rparr>)"
  by (simp add: service_defs store_defs two_users_def)

lemma two_users_Delete_1:
  "UserService_DeleteUser two_users 1 =
     (None, \<lparr>rows = [\<lparr>ID = 2, Name = ''C'', Email = ''c@x''\<rparr>],
       next_id = 3, fault = None, executed = [DeleteUser 1]\<rparr>)"
  by (simp add: service_defs store_defs two_users_def)

text \<open>
  Claim C6 at the example requests: the bad request on the store with two users, a payload whose
  \<^verbatim>\<open>id\<close> member is a string, and a well-formed request for identifier 1.
\<close>

theorem handler_bad_request_and_success_witness:
  "snd (Decode (body bad_request)) \<noteq> None \<and> Atoi (query_id bad_request) = None \<and>
   UserHandler_CreateUser two_users bad_request = (\<lparr>status = 400, content = Text ''Invalid input''\<rparr>, two_users) \<and>
   UserHandler_GetUser two_users bad_request = (\<lparr>status = 400, content = Text ''Invalid ID''\<rparr>, two_users) \<and>
   UserHandler_UpdateUser two_users bad_request = (\<lparr>status = 400, content = Text ''Invalid ID''\<rparr>, two_users) \<and>
   UserHandler_DeleteUser two_users bad_request = (\<lparr>status = 400, content = Text ''Invalid ID''\<rparr>, two_users) \<and>
   snd (Decode (body (request_B ''1'' (JString ''7'')))) \<noteq> None \<and>
   UserHandler_UpdateUser two_users (request_B ''1'' (JString ''7'')) =
     (\<lparr>status = 400, content = Text ''Invalid input''\<rparr>, two_users) \<and>
   Atoi (query_id (request_B ''1'' (JNumber ''7''))) = Some 1 \<and>
   Decode (body (request_B ''1'' (JNumber ''7''))) = (\<lparr>ID = 7, Name = ''B'', Email = ''b@x''\<rparr>, None) \<and>
   snd (fst (UserService_CreateUser two_users ''B'' ''b@x'')) = None \<and>
   snd (fst (UserService_GetUser two_users 1)) = None \<and>
   snd (fst (UserService_UpdateUser two_users 1 ''B'' ''b@x'')) = None \<and>
   fst (UserService_DeleteUser two_users 1) = None \<and>
   fst (UserHandler_CreateUser two_users (request_B ''1'' (JNumber ''7''))) =
     \<lparr>status = 201, content = Json \<lparr>ID = 3, Name = ''B'', Email = ''b@x''\<rparr>\<rparr> \<and>
   fst (UserHandler_GetUser two_users (request_B ''1'' (JNumber ''7''))) =
     \<lparr>status = 200, content = Json \<lparr>ID = 1, Name = ''A'', Email = ''a@x''\<rparr>\<rparr> \<and>
   fst (UserHandler_UpdateUser two_users (request_B ''1'' (JNumber ''7''))) =
     \<lparr>status = 200, content = Json \<lparr>ID = 1, Name = ''B'', Email = ''b@x''\<rparr>\<rparr> \<and>
   fst (UserHandler_DeleteUser two_users (request_B ''1'' (JNumber ''7''))) =
     \<lparr>status = 204, content = NoContent\<rparr>"
proof -
  note bad = handler_bad_request_and_success [of bad_request two_users]
  note bad_body = handler_bad_request_and_success [of "request_B ''1'' (JString ''7'')" two_users]
  note created = handler_bad_request_and_success [of "request_B ''1'' (JNumber ''7'')" two_users
      "\<lparr>ID = 7, Name = ''B'', Email = ''b@x''\<rparr>" _ _ 1, unfolded Decode_request_B_number]
  have 1: "snd (Decode (body bad_request)) \<noteq> None \<and> Atoi (query_id bad_request) = None"
    by (simp add: Decode_bad_request Atoi_bad_request)
  have 2: "snd (Decode (body (request_B ''1'' (JString ''7'')))) \<noteq> None"
    by (simp add: Decode_request_B_string)
  from 1 bad
  have b: "UserHandler_CreateUser two_users bad_request =
      (\<lparr>status = 400, content = Text ''Invalid input''\<rparr>, two_users)"
    "UserHandler_GetUser two_users bad_request = (\<lparr>status = 400, content = Text ''Invalid ID''\<rparr>, two_users)"
    "UserHandler_UpdateUser two_users bad_request = (\<lparr>status = 400, content = Text ''Invalid ID''\<rparr>, two_users)"
    "UserHandler_DeleteUser two_users bad_request = (\<lparr>status = 400, content = Text ''Invalid ID''\<rparr>, two_users)"
    by (simp_all add: http_status_defs)
  from 2 bad_body have bb: "UserHandler_UpdateUser two_users (request_B ''1'' (JString ''7'')) =
     (\<lparr>status = 400, content = Text ''Invalid input''\<rparr>, two_users)"
    by (simp add: http_status_defs query_id_request_B Atoi_1)
  from created two_users_Create_B
  have c: "fst (UserHandler_CreateUser two_users (request_B ''1'' (JNumber ''7''))) =
     \<lparr>status = 201, content = Json \<lparr>ID = 3, Name = ''B'', Email = ''b@x''\<rparr>\<rparr>"
    by (simp add: http_status_defs)
  from created two_users_Get_1
  have g: "fst (UserHandler_GetUser two_users (request_B ''1'' (JNumber ''7''))) =
     \<lparr>status = 200, content = Json \<lparr>ID = 1, Name = ''A'', Email = ''a@x''\<rparr>\<rparr>"
    by (simp add: http_status_defs query_id_request_B Atoi_1)
  from created two_users_Update_1_B
  have u: "fst (UserHandler_UpdateUser two_users (request_B ''1'' (JNumber ''7''))) =
     \<lparr>status = 200, content = Json \<lparr>ID = 1, Name = ''B'', Email = ''b@x''\<rparr>\<rparr>"
    by (simp add: http_status_defs query_id_request_B Atoi_1)
  from created two_users_Delete_1
  have dl: "fst (UserHandler_DeleteUser two_users (request_B ''1'' (JNumber ''7''))) =
     \<lparr>status = 204, content = NoContent\<rparr>"
    by (simp add: http_status_defs query_id_request_B Atoi_1)
  have 3: "Atoi (query_id (request_B ''1'' (JNumber ''7''))) = Some 1 \<and>
     Decode (body (request_B ''1'' (JNumber ''7''))) = (\<lparr>ID = 7, Name = ''B'', Email = ''b@x''\<rparr>, None) \<and>
     snd (fst (UserService_CreateUser two_users ''B'' ''b@x'')) = None \<and>
     snd (fst (UserService_GetUser two_users 1)) = None \<and>
     snd (fst (UserService_UpdateUser two_users 1 ''B'' ''b@x'')) = None \<and>
     fst (UserService_DeleteUser two_users 1) = None"
    by (simp add: query_id_request_B Atoi_1 Decode_request_B_number two_users_Create_B
        two_users_Get_1 two_users_Update_1_B two_users_Delete_1)
  from 1 2 3 b bb c g u dl show ?thesis by simp
qed











subsection \<open>The \<^verbatim>\<open>id\<close> member of the payload\<close>

text \<open>
  Members that name the \<^verbatim>\<open>ID\<close> field and hold a value that fits it change neither the
  decoded name and email nor the decoder's error.
\<close>

lemma store_ID_fits:
  "fits_ID v \<Longrightarrow>
   snd (store_ID v u) = None \<and> Name (fst (store_ID v u)) = Name u \<and>
   Email (fst (store_ID v u)) = Email u"
  by (cases v) (auto split: option.splits)

lemma store_Name_agree:
  "Name u = Name u' \<Longrightarrow> Email u = Email u' \<Longrightarrow>
   Name (fst (store_Name v u)) = Name (fst (store_Name v u')) \<and>
   Email (fst (store_Name v u)) = Email (fst (store_Name v u')) \<and>
   snd (store_Name v u) = snd (store_Name v u')"
  by (cases v) auto

lemma store_Email_agree:
  "Name u = Name u' \<Longrightarrow> Email u = Email u' \<Longrightarrow>
   Name (fst (store_Email v u)) = Name (fst (store_Email v u')) \<and>
   Email (fst (store_Email v u)) = Email (fst (store_Email v u')) \<and>
   snd (store_Email v u) = snd (store_Email v u')"
  by (cases v) auto

lemma store_member_agree:
  "\<not> names_field key ''id'' \<Longrightarrow> Name u = Name u' \<Longrightarrow> Email u = Email u' \<Longrightarrow>
   Name (fst (store_member key v u)) = Name (fst (store_member key v u')) \<and>
   Email (fst (store_member key v u)) = Email (fst (store_member key v u')) \<and>
   snd (store_member key v u) = snd (store_member key v u')"
  using store_Name_agree [of u u' v] store_Email_agree [of u u' v]
  by (simp add: store_member_def)

lemma decode_members_strip_id:
  "list_all (\<lambda>(key, v). names_field key ''id'' \<longrightarrow> fits_ID v) ms \<Longrightarrow>
   Name u = Name u' \<Longrightarrow> Email u = Email u' \<Longrightarrow>
   Name (fst (decode_members ms (u, e))) = Name (fst (decode_members (strip_id ms) (u', e))) \<and>
   Email (fst (decode_members ms (u, e))) = Email (fst (decode_members (strip_id ms) (u', e))) \<and>
   snd (decode_members ms (u, e)) = snd (decode_members (strip_id ms) (u', e))"
proof (induction ms arbitrary: u u' e)
  case Nil
  then show ?case by (simp add: strip_id_def)
next
  case (Cons m ms)
  obtain key v where m: "m = (key, v)" by (cases m)
  from Cons.prems(1) m
  have fit: "names_field key ''id'' \<longrightarrow> fits_ID v"
    and rest: "list_all (\<lambda>(key, v). names_field key ''id'' \<longrightarrow> fits_ID v) ms"
    by simp_all
  show ?case
  proof (cases "names_field key ''id''")
    case True
    with fit have f: "fits_ID v" by simp
    obtain u1 e1 where s: "store_ID v u = (u1, e1)" by (cases "store_ID v u")
    with store_ID_fits [OF f, of u]
    have e1: "e1 = None" and n: "Name u1 = Name u" "Email u1 = Email u" by simp_all
    have step: "decode_members (m # ms) (u, e) = decode_members ms (u1, e)"
      using True s e1 by (simp add: m store_member_def)
    have strip: "strip_id (m # ms) = strip_id ms"
      using True by (simp add: m strip_id_def)
    from n Cons.prems(2,3) have "Name u1 = Name u'" "Email u1 = Email u'" by simp_all
    from Cons.IH [OF rest this, of e] show ?thesis by (simp only: step strip)
  next
    case False
    obtain a ea where sa: "store_member key v u = (a, ea)" by (cases "store_member key v u")
    obtain b eb where sb: "store_member key v u' = (b, eb)" by (cases "store_member key v u'")
    from store_member_agree [OF False Cons.prems(2,3), of v] sa sb
    have ag: "Name a = Name b" "Email a = Email b" "ea = eb" by simp_all
    have step: "decode_members (m # ms) (u, e) = decode_members ms (a, if e = None then ea else e)"
      using sa by (simp add: m)
    have strip: "decode_members (strip_id (m # ms)) (u', e) =
                 decode_members (strip_id ms) (b, if e = None then ea else e)"
      using False sb ag(3) by (simp add: m strip_id_def)
    from Cons.IH [OF rest ag(1,2), of "if e = None then ea else e"]
    show ?thesis by (simp only: step strip)
  qed
qed

lemma Decode_differ_only_in_id:
  assumes "differ_only_in_id j1 j2" "id_members_fit j1" "id_members_fit j2"
  shows "Name (fst (Decode (Some j1))) = Name (fst (Decode (Some j2))) \<and>
         Email (fst (Decode (Some j1))) = Email (fst (Decode (Some j2))) \<and>
         snd (Decode (Some j1)) = snd (Decode (Some j2))"
proof -
  from assms(1) obtain ms1 ms2 where j: "j1 = JObject ms1" "j2 = JObject ms2"
    and eq: "strip_id ms1 = strip_id ms2"
    by (cases j1; cases j2) simp_all
  from assms(2,3) j
  have f1: "list_all (\<lambda>(key, v). names_field key ''id'' \<longrightarrow> fits_ID v) ms1"
    and f2: "list_all (\<lambda>(key, v). names_field key ''id'' \<longrightarrow> fits_ID v) ms2"
    by simp_all
  from decode_members_strip_id [OF f1 refl refl, of zero_User None]
       decode_members_strip_id [OF f2 refl refl, of zero_User None] eq
  show ?thesis by (simp add: j)
qed


text \<open>
  A member that names the \<^verbatim>\<open>ID\<close> field and holds a value that does not fit it makes the
  decoder report an error, wherever it stands among the members.
\<close>

lemma store_ID_unfit: "\<not> fits_ID v \<Longrightarrow> snd (store_ID v u) = Some UnmarshalTypeError"
  by (cases v) (auto split: option.splits)

lemma decode_members_error_kept:
  "e \<noteq> None \<Longrightarrow> snd (decode_members ms (u, e)) = e"
proof (induction ms arbitrary: u)
  case Nil
  then show ?case by simp
next
  case (Cons m ms)
  obtain key v where m: "m = (key, v)" by (cases m)
  obtain u1 e1 where s: "store_member key v u = (u1, e1)" by (cases "store_member key v u")
  from Cons.prems obtain x where x: "e = Some x" by (cases e) simp_all
  then have "decode_members (m # ms) (u, e) = decode_members ms (u1, e)"
    by (simp add: m s)
  with Cons.IH [OF Cons.prems, of u1] show ?case by simp
qed

lemma decode_members_unfit:
  "(key, v) \<in> set ms \<Longrightarrow> names_field key ''id'' \<Longrightarrow> \<not> fits_ID v \<Longrightarrow>
   snd (decode_members ms (u, e)) \<noteq> None"
proof (induction ms arbitrary: u e)
  case Nil
  then show ?case by simp
next
  case (Cons m ms)
  obtain k w where m: "m = (k, w)" by (cases m)
  obtain u1 e1 where s: "store_member k w u = (u1, e1)" by (cases "store_member k w u")
  have step: "decode_members (m # ms) (u, e) = decode_members ms (u1, if e = None then e1 else e)"
    by (simp add: m s)
  show ?case
  proof (cases "(key, v) = m")
    case True
    with m have kv: "k = key" "w = v" by simp_all
    from Cons.prems(2,3) s have "e1 = Some UnmarshalTypeError"
      using store_ID_unfit [of v u] by (simp add: kv store_member_def)
    then have "(if e = None then e1 else e) \<noteq> None" by simp
    from decode_members_error_kept [OF this, of ms u1] this show ?thesis
      by (simp only: step) simp
  next
    case False
    with Cons.prems(1) have "(key, v) \<in> set ms" by auto
    then have "snd (decode_members ms (u1, if e = None then e1 else e)) \<noteq> None"
      using Cons.prems(2,3) by (rule Cons.IH)
    then show ?thesis unfolding step .
  qed
qed

lemma Decode_unfit:
  "(key, v) \<in> set ms \<Longrightarrow> names_field key ''id'' \<Longrightarrow> \<not> fits_ID v \<Longrightarrow>
   snd (Decode (Some (JObject ms))) \<noteq> None"
  by (simp add: decode_members_unfit)

text \<open>Values that do not fit the \<^verbatim>\<open>ID\<close> field: a string, a fraction, a number out of range.\<close>

lemma unfit_examples:
  "\<not> fits_ID (JString s) \<and> \<not> fits_ID (JBool b) \<and> \<not> fits_ID (JArray vs) \<and>
   \<not> fits_ID (JObject ms) \<and> \<not> fits_ID (JNumber ''7.5'') \<and>
   \<not> fits_ID (JNumber ''9223372036854775808'') \<and> fits_ID (JNumber ''9223372036854775807'')"
  by (simp add: parse_defs)

lemma UserService_CreateUser_ID:
  "UserService_CreateUser d name email = ((u', None), d') \<Longrightarrow> ID u' = next_id d"
  by (auto simp: service_defs store_defs split: option.splits if_splits)


text \<open>
  Claim C8, as amended: for two create requests whose payloads are objects that differ only in
  the members naming the \<^verbatim>\<open>id\<close> field, and in which every such member holds \<^verbatim>\<open>null\<close> or a
  decimal integer that fits an \<^verbatim>\<open>int\<close>, the handler gives the same response and leaves the
  same store, the statement sent included; the identifier of a record answered with status 201
  is the next value of the store's sequence; and a payload object with a member that names the
  \<^verbatim>\<open>id\<close> field and holds any other value, such as a string, a fraction or a number out of
  range, is answered with status 400 and \<^verbatim>\<open>Invalid input\<close>, the store exactly as it was.
\<close>

theorem create_ignores_payload_id:
  "(differ_only_in_id j1 j2 \<and> id_members_fit j1 \<and> id_members_fit j2 \<longrightarrow>
      UserHandler_CreateUser d (r\<lparr>body := Some j1\<rparr>) =
      UserHandler_CreateUser d (r\<lparr>body := Some j2\<rparr>)) \<and>
   (UserHandler_CreateUser d r = (\<lparr>status = 201, content = Json u'\<rparr>, d') \<longrightarrow>
      ID u' = next_id d) \<and>
   ((key, v) \<in> set ms \<and> names_field key ''id'' \<and> \<not> fits_ID v \<longrightarrow>
      UserHandler_CreateUser d (r\<lparr>body := Some (JObject ms)\<rparr>) =
        (\<lparr>status = 400, content = Text ''Invalid input''\<rparr>, d)) \<and>
   \<not> fits_ID (JString s) \<and> \<not> fits_ID (JNumber ''7.5'') \<and>
   \<not> fits_ID (JNumber ''9223372036854775808'')"
proof (intro conjI impI)
  assume "differ_only_in_id j1 j2 \<and> id_members_fit j1 \<and> id_members_fit j2"
  then have ag: "Name (fst (Decode (Some j1))) = Name (fst (Decode (Some j2)))"
    "Email (fst (Decode (Some j1))) = Email (fst (Decode (Some j2)))"
    "snd (Decode (Some j1)) = snd (Decode (Some j2))"
    using Decode_differ_only_in_id [of j1 j2] by simp_all
  obtain u1 e1 where d1: "Decode (Some j1) = (u1, e1)" by (cases "Decode (Some j1)")
  obtain u2 e2 where d2: "Decode (Some j2) = (u2, e2)" by (cases "Decode (Some j2)")
  from ag d1 d2 have "Name u1 = Name u2" "Email u1 = Email u2" "e1 = e2" by simp_all
  with d1 d2 show "UserHandler_CreateUser d (r\<lparr>body := Some j1\<rparr>) =
      UserHandler_CreateUser d (r\<lparr>body := Some j2\<rparr>)"
    by (cases e2) (simp_all add: UserHandler_CreateUser_def)
next
  assume a: "UserHandler_CreateUser d r = (\<lparr>status = 201, content = Json u'\<rparr>, d')"
  obtain user e where dec: "Decode (body r) = (user, e)" by (cases "Decode (body r)")
  obtain cu ce dc where c: "UserService_CreateUser d (Name user) (Email user) = ((cu, ce), dc)"
    by (cases "UserService_CreateUser d (Name user) (Email user)") auto
  from a dec c have "e = None \<and> ce = None \<and> cu = u'"
    by (cases e; cases ce) (simp_all add: UserHandler_CreateUser_def http_Error_def)
  with c show "ID u' = next_id d"
    by (auto dest: UserService_CreateUser_ID)
next
  assume "(key, v) \<in> set ms \<and> names_field key ''id'' \<and> \<not> fits_ID v"
  then have "snd (Decode (Some (JObject ms))) \<noteq> None"
    using Decode_unfit [of key v ms] by simp
  then obtain u e where "Decode (Some (JObject ms)) = (u, Some e)"
    by (cases "Decode (Some (JObject ms))") auto
  then show "UserHandler_CreateUser d (r\<lparr>body := Some (JObject ms)\<rparr>) =
        (\<lparr>status = 400, content = Text ''Invalid input''\<rparr>, d)"
    by (simp add: UserHandler_CreateUser_def http_Error_def StatusBadRequest_def)
next
  show "\<not> fits_ID (JString s)" "\<not> fits_ID (JNumber ''7.5'')"
    "\<not> fits_ID (JNumber ''9223372036854775808'')"
    using unfit_examples [of s] by simp_all
qed

text \<open>
  Claim C8, as amended, at payloads with \<^verbatim>\<open>"id": 7\<close> and \<^verbatim>\<open>"id": null\<close>, which fit, and with
  \<^verbatim>\<open>"id": 7.5\<close>, which does not.
\<close>

theorem create_ignores_payload_id_witness:
  "differ_only_in_id (payload_B (JNumber ''7'')) (payload_B JNull) \<and>
   id_members_fit (payload_B (JNumber ''7'')) \<and> id_members_fit (payload_B JNull) \<and>
   UserHandler_CreateUser two_users (request_B [] JNull) =
   UserHandler_CreateUser two_users (request_B [] (JNumber ''7'')) \<and>
   fst (UserHandler_CreateUser two_users (request_B [] (JNumber ''7''))) =
     \<lparr>status = 201, content = Json \<lparr>ID = 3, Name = ''B'', Email = ''b@x''\<rparr>\<rparr> \<and>
   next_id two_users = 3 \<and>
   names_field ''id'' ''id'' \<and> \<not> fits_ID (JNumber ''7.5'') \<and>
   UserHandler_CreateUser two_users (request_B [] (JNumber ''7.5'')) =
     (\<lparr>status = 400, content = Text ''Invalid input''\<rparr>, two_users)"
proof -
  have h: "differ_only_in_id (payload_B (JNumber ''7'')) (payload_B JNull) \<and>
   id_members_fit (payload_B (JNumber ''7'')) \<and> id_members_fit (payload_B JNull)"
    by (simp add: payload_B_def strip_id_def names_field_def fold_byte_def parse_defs)
  have c: "UserHandler_CreateUser two_users (request_B [] (JNumber ''7'')) =
     (\<lparr>status = 201, content = Json \<lparr>ID = 3, Name = ''B'', Email = ''b@x''\<rparr>\<rparr>,
      \<lparr>rows = [\<lparr>ID = 1, Name = ''A'', Email = ''a@x''\<rparr>, \<lparr>ID = 2, Name = ''C'', Email = ''c@x''\<rparr>,
               \<lparr>ID = 3, Name = ''B'', Email = ''b@x''\<rparr>],
       next_id = 4, fault = None, executed = [InsertUser ''B'' ''b@x'']\<rparr>)"
    by (simp add: UserHandler_CreateUser_def Decode_request_B_number two_users_Create_B
        StatusCreated_def)
  have n: "names_field ''id'' ''id'' \<and> \<not> fits_ID (JNumber ''7.5'')"
    by (simp add: names_field_def parse_defs)
  have m: "(''id'', JNumber ''7.5'') \<in>
      set [(''id'', JNumber ''7.5''), (''name'', JString ''B''), (''email'', JString ''b@x'')]"
    by simp
  from create_ignores_payload_id [of "payload_B (JNumber ''7'')" "payload_B JNull" two_users
      "request_B [] (JNumber ''7'')" "\<lparr>ID = 3, Name = ''B'', Email = ''b@x''\<rparr>"
      "\<lparr>rows = [\<lparr>ID = 1, Name = ''A'', Email = ''a@x''\<rparr>, \<lparr>ID = 2, Name = ''C'', Email = ''c@x''\<rparr>,
               \<lparr>ID = 3, Name = ''B'', Email = ''b@x''\<rparr>],
       next_id = 4, fault = None, executed = [InsertUser ''B'' ''b@x'']\<rparr>"
      "''id''" "JNumber ''7.5''"
      "[(''id'', JNumber ''7.5''), (''name'', JString ''B''), (''email'', JString ''b@x'')]"]
    h c n m
  show ?thesis by (simp add: request_B_def payload_B_def)
qed

text \<open>
  Claim C8 as stated fails: the payloads with \<^verbatim>\<open>"id": 7\<close> and \<^verbatim>\<open>"id": "7"\<close> differ only in
  the \<^verbatim>\<open>id\<close> field, the first is answered with status 201 and the second with status 400,
  the store untouched.
\<close>

theorem create_rejects_ill_typed_payload_id:
  "differ_only_in_id (payload_B (JNumber ''7'')) (payload_B (JString ''7'')) \<and>
   fst (UserHandler_CreateUser two_users (request_B [] (JNumber ''7''))) =
     \<lparr>status = 201, content = Json \<lparr>ID = 3, Name = ''B'', Email = ''b@x''\<rparr>\<rparr> \<and>
   UserHandler_CreateUser two_users (request_B [] (JString ''7'')) =
     (\<lparr>status = 400, content = Text ''Invalid input''\<rparr>, two_users) \<and>
   UserHandler_CreateUser two_users (request_B [] (JNumber ''7'')) \<noteq>
   UserHandler_CreateUser two_users (request_B [] (JString ''7''))"
  by (simp add: UserHandler_CreateUser_def Decode_request_B_number Decode_request_B_string
      two_users_Create_B payload_B_def strip_id_def names_field_def fold_byte_def
      http_Error_def http_status_defs)




section \<open>Properties of the policy points\<close>

text \<open>
  Claim C7: for every discount calculator and price, \<^verbatim>\<open>CalculateFinalPrice\<close> returns what the
  calculator's \<^verbatim>\<open>Calculate\<close> returns, and for every speaker \<^verbatim>\<open>DescribeAnimal\<close> prints the
  line made of \<^verbatim>\<open>The animal says:\<close> and what \<^verbatim>\<open>Speak\<close> returns; with each strategy of the
  repository the call site yields that strategy's output.
\<close>

theorem call_site_yields_strategy_output:
  "CalculateFinalPrice p dc = Calculate dc p \<and>
   CalculateFinalPrice p RegularCustomerDiscount = p \<and>
   CalculateFinalPrice p (LoyalCustomerDiscount F) = fmul F p (flit F ''0.90'') \<and>
   CalculateFinalPrice p (VIPCustomerDiscount F) = fmul F p (flit F ''0.80'') \<and>
   CalculateFinalPrice p (NewCustomerDiscount F) = fmul F p (flit F ''0.95'') \<and>
   DescribeAnimal s = ''The animal says: '' @ Speak s @ [CHR 0x0A] \<and>
   DescribeAnimal Dog = ''The animal says: Woof!'' @ [CHR 0x0A] \<and>
   DescribeAnimal Cat = ''The animal says: Meow!'' @ [CHR 0x0A] \<and>
   DescribeAnimal Parrot = ''The animal says: Squawk!'' @ [CHR 0x0A]"
  by (simp add: CalculateFinalPrice_def RegularCustomerDiscount_def LoyalCustomerDiscount_def
      VIPCustomerDiscount_def NewCustomerDiscount_def DescribeAnimal_def Println_def
      Dog_def Cat_def Parrot_def)

text \<open>
  Claim C10: \<^verbatim>\<open>EmailNotifier.Send\<close> and \<^verbatim>\<open>SMSNotifier.Send\<close> return a \<^verbatim>\<open>nil\<close> error for
  every message, and \<^verbatim>\<open>Notify\<close> with either of them prints the success line and does not
  take the branch \<^verbatim>\<open>err != nil\<close>.
\<close>

theorem provided_notifiers_never_fail:
  "snd (Send EmailNotifier message) = None \<and> snd (Send SMSNotifier message) = None \<and>
   Notify (NewNotificationService EmailNotifier) message =
     (Println [''Sending email with message:'', message] @
      Println [''Notification sent successfully!''], False) \<and>
   Notify (NewNotificationService SMSNotifier) message =
     (Println [''Sending SMS with message:'', message] @
      Println [''Notification sent successfully!''], False)"
  by (simp add: Notify_def NewNotificationService_def EmailNotifier_def SMSNotifier_def)

text \<open>The failure branch is taken with a notifier that does return an error.\<close>

lemma Notify_failure_branch:
  "Notify (NewNotificationService \<lparr>Send = (\<lambda>message. ([], Some ''timeout''))\<rparr>) message =
     (Println [''Failed to send notification:'', ''timeout''], True)"
  by (simp add: Notify_def NewNotificationService_def)

end
